theory Spec2Isabelle
  imports Complex_Main "HOL-Library.Word"
begin

section \<open>Data model of the token wheel front end\<close>

text \<open>
  JavaScript strings are sequences of UTF-16 code units, so a string is a list of 16-bit
  words; \<open>js\<close> embeds an ASCII literal. Token identifiers are integers. An optional field
  (\<open>f?: T\<close>), \<open>null\<close> and \<open>undefined\<close> are \<open>None\<close>.

  A JavaScript number that carries a probability or an angle is an IEEE 754 double. A
  finite double is a real, and a number is modelled as the real it denotes (NaN and the
  infinities are left out). Comparing doubles is comparing these reals. Adding and
  multiplying round: the definitions that compute with numbers take the addition and
  the multiplication of the source as the arguments \<open>add\<close> and \<open>mul\<close>, so what is proved
  of them holds however the two operations round. The operations of the code are
  \<open>double_add\<close> and \<open>double_mul\<close> below.
\<close>

type_synonym jsstring = "16 word list"

definition js :: "string \<Rightarrow> jsstring" where
  "js s = map (\<lambda>c. of_nat (of_char c)) s"

subsection \<open>Double arithmetic\<close>

text \<open>\<open>ilog2 n\<close> is the position of the leading bit of \<open>n\<close>, and \<open>pow2 e\<close> is \<open>2\<close> to the \<open>e\<close>.\<close>

fun ilog2 :: "nat \<Rightarrow> nat" where
  "ilog2 n = (if n < 2 then 0 else Suc (ilog2 (n div 2)))"

declare ilog2.simps [simp del]

definition pow2 :: "int \<Rightarrow> real" where
  "pow2 e = (if 0 \<le> e then 2 ^ nat e else 1 / 2 ^ nat (- e))"

text \<open>The binary exponent of a non-zero real \<open>x\<close>: the \<open>e\<close> with \<open>2^e \<le> |x| < 2^(e+1)\<close>.\<close>

definition exponent :: "real \<Rightarrow> int" where
  "exponent x =
     (let a = \<bar>x\<bar>
      in if 1 \<le> a then int (ilog2 (nat \<lfloor>a\<rfloor>))
         else (let k = ilog2 (nat \<lfloor>1 / a\<rfloor>)
               in if a * 2 ^ k = 1 then - int k else - int k - 1))"

text \<open>Rounding to the nearest integer, a tie to the even one.\<close>

definition round_half_even :: "real \<Rightarrow> int" where
  "round_half_even q =
     (let f = \<lfloor>q\<rfloor>; d = q - of_int f
      in if d < 1 / 2 then f else if 1 / 2 < d then f + 1 else if even f then f else f + 1)"

text \<open>
  \<open>fl x\<close> is the double nearest to \<open>x\<close>, a tie to the even significand: 53 significant
  bits, and below \<open>2^-1022\<close> the fixed spacing \<open>2^-1074\<close> of the subnormal doubles. (A
  result beyond the largest double, which the code rounds to \<open>Infinity\<close>, is left out.)
\<close>

definition fl :: "real \<Rightarrow> real" where
  "fl x =
     (if x = 0 then 0
      else (let e = max (exponent x) (- 1022) - 52
            in pow2 e * of_int (round_half_even (x / pow2 e))))"

definition double_add :: "real \<Rightarrow> real \<Rightarrow> real" where
  "double_add x y = fl (x + y)"

definition double_mul :: "real \<Rightarrow> real \<Rightarrow> real" where
  "double_mul x y = fl (x * y)"

subsection \<open>Interfaces\<close>

text \<open>Reading \<open>xs[i]\<close> from a JavaScript array: \<open>undefined\<close> out of range.\<close>

definition nth_opt :: "'a list \<Rightarrow> nat \<Rightarrow> 'a option" where
  "nth_opt xs i = (if i < length xs then Some (xs ! i) else None)"

text \<open>\<open>interface TokenData\<close> (spinner.ts, wheel.ts).\<close>

record TokenData =
  token_id :: int
  token_text :: jsstring
  probability :: real

text \<open>\<open>interface OtherCategory\<close>.\<close>

record OtherCategory =
  total_probability :: real
  token_count :: int
  sample_tokens :: "TokenData list"

text \<open>
  \<open>interface Wedge\<close> (wheel.ts). The field \<open>probability\<close> of the source is
  \<open>w_probability\<close> here, since record fields share one name space.
\<close>

record Wedge =
  tokenId :: "int option"
  tokenText :: jsstring
  w_probability :: real
  startAngle :: real
  endAngle :: real
  isOther :: bool

text \<open>
  \<open>interface SelectedToken\<close> (spinner.ts); the fields \<open>token_id\<close>, \<open>token_text\<close>,
  \<open>probability\<close> and \<open>isOther\<close> of the source carry the prefix \<open>sel_\<close>.
\<close>

record SelectedToken =
  sel_token_id :: "int option"
  sel_token_text :: "jsstring option"
  sel_probability :: real
  sel_isOther :: bool
  wedge :: "Wedge option"

section \<open>spinner.ts: selectRandomToken\<close>

text \<open>
  The weighted array \<open>allTokens\<close>: one entry per token, in the order of \<open>tokens\<close>, each
  with the wedge at its index, followed by the entry of the "Other" category, which is
  appended whatever its probability is.
\<close>

definition allTokens :: "TokenData list \<Rightarrow> OtherCategory \<Rightarrow> Wedge list \<Rightarrow> SelectedToken list" where
  "allTokens tokens otherCategory wedges =
     map (\<lambda>(i, t). \<lparr>sel_token_id = Some (token_id t), sel_token_text = Some (token_text t),
                     sel_probability = probability t, sel_isOther = False,
                     wedge = nth_opt wedges i\<rparr>) (enumerate 0 tokens)
     @ [\<lparr>sel_token_id = None, sel_token_text = None,
         sel_probability = total_probability otherCategory, sel_isOther = True,
         wedge = nth_opt wedges (length tokens)\<rparr>]"

text \<open>
  The loop \<open>for (const token of allTokens)\<close>: \<open>cumulative += token.probability\<close> adds
  with the addition \<open>add\<close> of the source, and the loop returns the first entry at which
  \<open>random <= cumulative\<close>; \<open>None\<close> when it runs through.
\<close>

fun walk :: "(real \<Rightarrow> real \<Rightarrow> real) \<Rightarrow> real \<Rightarrow> real \<Rightarrow> SelectedToken list \<Rightarrow> SelectedToken option" where
  "walk add random cumulative [] = None"
| "walk add random cumulative (token # rest) =
     (let cumulative' = add cumulative (sel_probability token)
      in if random \<le> cumulative' then Some token else walk add random cumulative' rest)"

text \<open>
  \<open>selectRandomToken\<close> with the draw \<open>Math.random()\<close> as an argument; \<open>cumulative\<close>
  starts at \<open>0\<close>. After the loop, the fallback is \<open>allTokens[allTokens.length - 1]\<close>.
\<close>

definition selectRandomToken ::
    "(real \<Rightarrow> real \<Rightarrow> real) \<Rightarrow> real \<Rightarrow> TokenData list \<Rightarrow> OtherCategory \<Rightarrow> Wedge list
       \<Rightarrow> SelectedToken" where
  "selectRandomToken add random tokens otherCategory wedges =
     (let all = allTokens tokens otherCategory wedges
      in case walk add random 0 all of
           Some token \<Rightarrow> token
         | None \<Rightarrow> all ! (length all - 1))"

text \<open>
  The cumulative mass of the candidates up to and including index \<open>i\<close>, as the loop
  accumulates it: from \<open>0\<close>, one addition of the source per candidate, left to right.
\<close>

definition cumulative_mass :: "(real \<Rightarrow> real \<Rightarrow> real) \<Rightarrow> SelectedToken list \<Rightarrow> nat \<Rightarrow> real" where
  "cumulative_mass add cs i = foldl add 0 (map sel_probability (take (Suc i) cs))"

text \<open>The entry of the "Other" category in the weighted array.\<close>

definition otherEntry :: "TokenData list \<Rightarrow> OtherCategory \<Rightarrow> Wedge list \<Rightarrow> SelectedToken" where
  "otherEntry tokens otherCategory wedges =
     \<lparr>sel_token_id = None, sel_token_text = None,
      sel_probability = total_probability otherCategory, sel_isOther = True,
      wedge = nth_opt wedges (length tokens)\<rparr>"

section \<open>wheel.ts: calculateWedges\<close>

text \<open>
  One pass of the loop \<open>for (const token of tokens)\<close>: the loop state is the array
  \<open>wedges\<close> and \<open>currentAngle\<close>; a pass computes \<open>angleSize = token.probability * 360\<close>,
  pushes the token's wedge from \<open>currentAngle\<close> to \<open>currentAngle + angleSize\<close> and
  advances the angle by \<open>currentAngle += angleSize\<close>.
\<close>

definition pushTokenWedge ::
    "(real \<Rightarrow> real \<Rightarrow> real) \<Rightarrow> (real \<Rightarrow> real \<Rightarrow> real) \<Rightarrow> Wedge list \<times> real \<Rightarrow> TokenData
       \<Rightarrow> Wedge list \<times> real" where
  "pushTokenWedge add mul st token =
     (case st of (wedges, currentAngle) \<Rightarrow>
        (let angleSize = mul (probability token) 360
         in (wedges @ [\<lparr>tokenId = Some (token_id token), tokenText = token_text token,
                         w_probability = probability token, startAngle = currentAngle,
                         endAngle = add currentAngle angleSize, isOther = False\<rparr>],
             add currentAngle angleSize)))"

text \<open>
  \<open>calculateWedges\<close>: the loop starts from no wedges at \<open>-90\<close> degrees; the "Other"
  wedge is pushed under the guard \<open>otherCategory && otherCategory.total_probability > 0\<close>
  (\<open>otherCategory\<close> is an object, which is truthy, so the guard is the comparison).
\<close>

definition calculateWedges ::
    "(real \<Rightarrow> real \<Rightarrow> real) \<Rightarrow> (real \<Rightarrow> real \<Rightarrow> real) \<Rightarrow> TokenData list \<Rightarrow> OtherCategory
       \<Rightarrow> Wedge list" where
  "calculateWedges add mul tokens otherCategory =
     (case foldl (pushTokenWedge add mul) ([], - 90) tokens of (wedges, currentAngle) \<Rightarrow>
        if total_probability otherCategory > 0
        then (let angleSize = mul (total_probability otherCategory) 360
              in wedges @ [\<lparr>tokenId = None, tokenText = js ''Other'',
                              w_probability = total_probability otherCategory,
                              startAngle = currentAngle, endAngle = add currentAngle angleSize,
                              isOther = True\<rparr>])
        else wedges)"

text \<open>
  For the proofs: the angle the loop has reached from \<open>a\<close> after the given tokens, the
  wedges it pushes when it starts at \<open>a\<close>, by recursion on the tokens, and the "Other"
  wedge pushed at angle \<open>a\<close>.
\<close>

fun angleAfter :: "(real \<Rightarrow> real \<Rightarrow> real) \<Rightarrow> (real \<Rightarrow> real \<Rightarrow> real) \<Rightarrow> real \<Rightarrow> TokenData list \<Rightarrow> real" where
  "angleAfter add mul a [] = a"
| "angleAfter add mul a (token # rest) = angleAfter add mul (add a (mul (probability token) 360)) rest"

fun wedgesFrom :: "(real \<Rightarrow> real \<Rightarrow> real) \<Rightarrow> (real \<Rightarrow> real \<Rightarrow> real) \<Rightarrow> real \<Rightarrow> TokenData list \<Rightarrow> Wedge list" where
  "wedgesFrom add mul a [] = []"
| "wedgesFrom add mul a (token # rest) =
     \<lparr>tokenId = Some (token_id token), tokenText = token_text token,
      w_probability = probability token, startAngle = a,
      endAngle = add a (mul (probability token) 360), isOther = False\<rparr>
     # wedgesFrom add mul (add a (mul (probability token) 360)) rest"

definition otherWedge :: "(real \<Rightarrow> real \<Rightarrow> real) \<Rightarrow> (real \<Rightarrow> real \<Rightarrow> real) \<Rightarrow> real \<Rightarrow> OtherCategory \<Rightarrow> Wedge" where
  "otherWedge add mul a oc =
     \<lparr>tokenId = None, tokenText = js ''Other'', w_probability = total_probability oc,
      startAngle = a, endAngle = add a (mul (total_probability oc) 360), isOther = True\<rparr>"

section \<open>session.svelte.ts: the session store\<close>

text \<open>\<open>interface TokenHistoryItem\<close>; its fields carry the prefix \<open>h_\<close>.\<close>

record TokenHistoryItem =
  h_token_id :: int
  h_token_text :: jsstring
  h_probability :: real
  h_category :: jsstring
  h_selected_at :: jsstring
  h_sampled_from_other :: "bool option"

text \<open>The state fields of \<open>class SessionStore\<close>.\<close>

record SessionStore =
  sessionId :: "jsstring option"
  modelName :: jsstring
  initialPrompt :: jsstring
  currentText :: jsstring
  tokenHistory :: "TokenHistoryItem list"
  aboveThresholdTokens :: "TokenData list"
  otherCategory :: OtherCategory
  isLoading :: bool
  error :: "jsstring option"
  isSpinning :: bool

text \<open>The store as the field initialisers of the class leave it (and as \<open>reset\<close> does).\<close>

definition SessionStore_initial :: SessionStore where
  "SessionStore_initial =
     \<lparr>sessionId = None, modelName = js ''gpt2'', initialPrompt = [], currentText = [],
      tokenHistory = [], aboveThresholdTokens = [],
      otherCategory = \<lparr>total_probability = 0, token_count = 0, sample_tokens = []\<rparr>,
      isLoading = False, error = None, isSpinning = False\<rparr>"

text \<open>\<open>String.prototype.substring(start)\<close> with one argument: \<open>start\<close> is clamped to the length.\<close>

definition substring :: "jsstring \<Rightarrow> nat \<Rightarrow> jsstring" where
  "substring str start = drop (min start (length str)) str"

text \<open>
  The derived fields are declared as \<open>$derived(() => ...)\<close>: the value a derived field
  holds is the value of the expression given to \<open>$derived\<close>, which here is an arrow
  function. So \<open>canUndo\<close> and \<open>generatedText\<close> hold functions of no argument, and their
  result is read by calling them (as GeneratedText.svelte does: \<open>generatedText()\<close>).
  In \<open>generatedText\<close>, \<open>!this.initialPrompt\<close> holds of the empty string only.
\<close>

definition canUndo :: "SessionStore \<Rightarrow> unit \<Rightarrow> bool" where
  "canUndo s = (\<lambda>_. length (tokenHistory s) > 0)"

definition generatedText :: "SessionStore \<Rightarrow> unit \<Rightarrow> jsstring" where
  "generatedText s = (\<lambda>_. if initialPrompt s = [] then []
                          else substring (currentText s) (length (initialPrompt s)))"

text \<open>The same derivation in GeneratedText.svelte, from the props \<open>prompt\<close> and \<open>currentText\<close>.\<close>

definition GeneratedText_generatedText :: "jsstring \<Rightarrow> jsstring \<Rightarrow> unit \<Rightarrow> jsstring" where
  "GeneratedText_generatedText prompt currentText' =
     (\<lambda>_. if prompt = [] then [] else substring currentText' (length prompt))"

definition setPrompt :: "SessionStore \<Rightarrow> jsstring \<Rightarrow> SessionStore" where
  "setPrompt s prompt = s\<lparr>initialPrompt := prompt, currentText := prompt, tokenHistory := []\<rparr>"

text \<open>The argument of \<open>setTokenProbabilities\<close>, and the argument of \<open>appendToken\<close> and \<open>undoToken\<close>.\<close>

record ProbsData =
  pd_current_text :: jsstring
  above_threshold_tokens :: "TokenData list"
  other_category :: OtherCategory

record HistoryData =
  hd_current_text :: jsstring
  token_history :: "TokenHistoryItem list"

definition setTokenProbabilities :: "SessionStore \<Rightarrow> ProbsData \<Rightarrow> SessionStore" where
  "setTokenProbabilities s data =
     s\<lparr>currentText := pd_current_text data,
       aboveThresholdTokens := above_threshold_tokens data,
       otherCategory := other_category data\<rparr>"

definition undoToken :: "SessionStore \<Rightarrow> HistoryData \<Rightarrow> SessionStore" where
  "undoToken s data = s\<lparr>currentText := hd_current_text data, tokenHistory := token_history data\<rparr>"

section \<open>The wheel page: the undo control, handleUndo and handleSpin\<close>

text \<open>
  The value thrown by a failed request, as the \<open>catch\<close> blocks read it:
  \<open>error instanceof Error ? error.message : fallback\<close>.
\<close>

datatype thrown = Error_message jsstring | Not_an_Error

fun catch_message :: "thrown \<Rightarrow> jsstring \<Rightarrow> jsstring" where
  "catch_message (Error_message m) fallback = m"
| "catch_message Not_an_Error fallback = fallback"

text \<open>
  The undo button: \<open>disabled={!sessionStore.canUndo || sessionStore.isLoading ||
  sessionStore.isSpinning}\<close>. The page reads the field \<open>canUndo\<close> without calling it, so
  the operand of \<open>!\<close> is the function the field holds, and a function is truthy.
\<close>

definition truthy_function :: "('a \<Rightarrow> 'b) \<Rightarrow> bool" where
  "truthy_function f = True"

definition undoButton_disabled :: "SessionStore \<Rightarrow> bool" where
  "undoButton_disabled s = (\<not> truthy_function (canUndo s) \<or> isLoading s \<or> isSpinning s)"

text \<open>
  \<open>handleUndo\<close>. The outcomes of the two requests (\<open>undoToken\<close>, then
  \<open>getNextTokenProbs\<close>) are arguments: \<open>Inl\<close> is the value a failed request throws,
  \<open>Inr\<close> the data of the response. The second request is made only when the first
  succeeded; \<open>finally\<close> clears \<open>isLoading\<close>.
\<close>

definition handleUndo ::
    "thrown + HistoryData \<Rightarrow> thrown + ProbsData \<Rightarrow> SessionStore \<Rightarrow> SessionStore" where
  "handleUndo undoResult probsResult s =
     (let s1 = s\<lparr>isLoading := True, error := None\<rparr>;
          s2 = (case undoResult of
                  Inl e \<Rightarrow> s1\<lparr>error := Some (catch_message e (js ''Failed to undo''))\<rparr>
                | Inr data \<Rightarrow>
                    (let s' = undoToken s1 data
                     in case probsResult of
                          Inl e \<Rightarrow> s'\<lparr>error := Some (catch_message e (js ''Failed to undo''))\<rparr>
                        | Inr probData \<Rightarrow> setTokenProbabilities s' probData))
      in s2\<lparr>isLoading := False\<rparr>)"

text \<open>\<open>interface TokenSelection\<close>, the body of an append-token request; prefix \<open>ts_\<close>.\<close>

record TokenSelection =
  ts_token_id :: "int option"
  ts_token_text :: "jsstring option"
  ts_category :: "jsstring option"

text \<open>
  The selection that \<open>handleSpin\<close> hands to \<open>handleTokenSelect\<close>, with the draw of
  \<open>selectRandomToken\<close> and the arithmetic as arguments: the wedges are computed from the store's snapshot,
  a token is drawn, and the request is \<open>{ category: 'other' }\<close> when the drawn entry has
  \<open>isOther\<close>, the token's id and text otherwise.
\<close>

definition handleSpin_selection ::
    "(real \<Rightarrow> real \<Rightarrow> real) \<Rightarrow> (real \<Rightarrow> real \<Rightarrow> real) \<Rightarrow> real \<Rightarrow> SessionStore \<Rightarrow> TokenSelection" where
  "handleSpin_selection add mul random s =
     (let wedges = calculateWedges add mul (aboveThresholdTokens s) (otherCategory s);
          selectedToken = selectRandomToken add random (aboveThresholdTokens s) (otherCategory s) wedges
      in if sel_isOther selectedToken
         then \<lparr>ts_token_id = None, ts_token_text = None, ts_category = Some (js ''other'')\<rparr>
         else \<lparr>ts_token_id = sel_token_id selectedToken,
               ts_token_text = sel_token_text selectedToken, ts_category = None\<rparr>)"

section \<open>PromptInput.svelte: handleSubmit\<close>

text \<open>
  \<open>String.prototype.trim\<close> removes white space and line terminators from both ends.
  The code units it removes: TAB, LF, VT, FF, CR, SP, NBSP, U+1680, U+2000 to U+200A,
  U+2028, U+2029, U+202F, U+205F, U+3000 and U+FEFF.
\<close>

definition isWhiteSpace :: "16 word \<Rightarrow> bool" where
  "isWhiteSpace c \<longleftrightarrow>
     c = 0x0009 \<or> c = 0x000A \<or> c = 0x000B \<or> c = 0x000C \<or> c = 0x000D \<or> c = 0x0020 \<or>
     c = 0x00A0 \<or> c = 0x1680 \<or> (0x2000 \<le> c \<and> c \<le> 0x200A) \<or> c = 0x2028 \<or>
     c = 0x2029 \<or> c = 0x202F \<or> c = 0x205F \<or> c = 0x3000 \<or> c = 0xFEFF"

definition trim :: "jsstring \<Rightarrow> jsstring" where
  "trim str = rev (dropWhile isWhiteSpace (rev (dropWhile isWhiteSpace str)))"

text \<open>
  \<open>handleSubmit\<close>: the callback \<open>onSubmit\<close> is a state transformer on whatever state it
  works on; it is invoked when the trimmed prompt is non-empty, and nothing happens
  otherwise.
\<close>

definition handleSubmit :: "jsstring \<Rightarrow> ('s \<Rightarrow> 's) \<Rightarrow> 's \<Rightarrow> 's" where
  "handleSubmit prompt onSubmit s = (if length (trim prompt) > 0 then onSubmit s else s)"

section \<open>client.ts: getNextTokenProbs\<close>

text \<open>
  The query parameters \<open>getNextTokenProbs\<close> sends. An omitted argument is \<open>None\<close> and
  takes the default of the signature (\<open>threshold = 0.01\<close>, \<open>temperature = 1.0\<close>);
  \<open>Number.prototype.toString\<close> is the argument \<open>toString\<close>.
\<close>

definition getNextTokenProbs_params ::
    "(real \<Rightarrow> jsstring) \<Rightarrow> real option \<Rightarrow> real option \<Rightarrow> (jsstring \<times> jsstring) list" where
  "getNextTokenProbs_params toString threshold temperature =
     (let threshold' = (case threshold of None \<Rightarrow> 1 / 100 | Some t \<Rightarrow> t);
          temperature' = (case temperature of None \<Rightarrow> 1 | Some t \<Rightarrow> t)
      in [(js ''threshold'', toString threshold'), (js ''temperature'', toString temperature')])"

section \<open>Properties of selectRandomToken\<close>

lemmas double_simps =
  double_add_def double_mul_def fl_def exponent_def round_half_even_def pow2_def ilog2.simps Let_def

lemma walk_first:
  "i < length cs \<Longrightarrow> random \<le> foldl add c (map sel_probability (take (Suc i) cs)) \<Longrightarrow>
   (\<And>j. j < i \<Longrightarrow> foldl add c (map sel_probability (take (Suc j) cs)) < random) \<Longrightarrow>
   walk add random c cs = Some (cs ! i)"
proof (induction cs arbitrary: c i)
  case Nil
  then show ?case by simp
next
  case (Cons a cs)
  show ?case
  proof (cases i)
    case 0
    with Cons.prems(2) show ?thesis
      by simp
  next
    case (Suc k)
    have "foldl add c (map sel_probability (take (Suc 0) (a # cs))) < random"
      using Cons.prems(3)[of 0] Suc by simp
    then have miss: "\<not> random \<le> add c (sel_probability a)"
      by simp
    have k: "k < length cs"
      using Cons.prems(1) Suc by simp
    have meet: "random \<le> foldl add (add c (sel_probability a)) (map sel_probability (take (Suc k) cs))"
      using Cons.prems(2) Suc by simp
    have below: "foldl add (add c (sel_probability a)) (map sel_probability (take (Suc j) cs)) < random"
      if "j < k" for j
      using Cons.prems(3)[of "Suc j"] that Suc by simp
    have "walk add random (add c (sel_probability a)) cs = Some (cs ! k)"
      using Cons.IH[OF k meet below] by simp
    with miss Suc show ?thesis
      by (simp add: Let_def)
  qed
qed

lemma walk_none:
  "(\<And>j. j < length cs \<Longrightarrow> foldl add c (map sel_probability (take (Suc j) cs)) < random) \<Longrightarrow>
   walk add random c cs = None"
proof (induction cs arbitrary: c)
  case Nil
  then show ?case by simp
next
  case (Cons a cs)
  have "foldl add c (map sel_probability (take (Suc 0) (a # cs))) < random"
    using Cons.prems[of 0] by simp
  then have miss: "\<not> random \<le> add c (sel_probability a)"
    by simp
  have "foldl add (add c (sel_probability a)) (map sel_probability (take (Suc j) cs)) < random"
    if "j < length cs" for j
    using Cons.prems[of "Suc j"] that by simp
  then have "walk add random (add c (sel_probability a)) cs = None"
    by (rule Cons.IH)
  with miss show ?case
    by (simp add: Let_def)
qed

lemma allTokens_nonempty: "allTokens tokens oc wedges \<noteq> []"
  by (simp add: allTokens_def)

lemma allTokens_length: "length (allTokens tokens oc wedges) = Suc (length tokens)"
  by (simp add: allTokens_def)

lemma allTokens_last:
  "allTokens tokens oc wedges ! length tokens = otherEntry tokens oc wedges"
  by (simp add: allTokens_def otherEntry_def nth_append)

text \<open>
  C1. With the draw made explicit, \<open>selectRandomToken\<close> walks the candidates in the
  order of the weighted array (the tokens in their given order, then "Other"),
  accumulating probability mass with the addition of the source, and returns the first
  candidate whose cumulative mass meets or exceeds the draw: if the cumulative mass at
  index \<open>i\<close> is at least the draw and the cumulative mass at every earlier index is
  below it, the result is the candidate at index \<open>i\<close>. This holds however the addition
  rounds.
\<close>

theorem selectRandomToken_first_meeting:
  assumes "i < length (allTokens tokens oc wedges)"
    and "random \<le> cumulative_mass add (allTokens tokens oc wedges) i"
    and "\<forall>j<i. cumulative_mass add (allTokens tokens oc wedges) j < random"
  shows "selectRandomToken add random tokens oc wedges = allTokens tokens oc wedges ! i"
proof -
  have "walk add random 0 (allTokens tokens oc wedges) = Some (allTokens tokens oc wedges ! i)"
    using assms unfolding cumulative_mass_def by (intro walk_first) simp_all
  then show ?thesis
    by (simp add: selectRandomToken_def Let_def)
qed

text \<open>
  The witness is in double arithmetic, at the tokens 0.1, 0.2 and 0.5, the tail mass
  0.2 and the draw 0.30000000000000004, each written as the fraction the double
  denotes: the sum of 0.1 and 0.2 rounds to the draw, so the second token is selected.
\<close>

theorem selectRandomToken_first_meeting_witness:
  "(1::nat) < length (allTokens
        [\<lparr>token_id = 1, token_text = js ''a'', probability = 3602879701896397 / 36028797018963968\<rparr>,
         \<lparr>token_id = 2, token_text = js ''b'', probability = 3602879701896397 / 18014398509481984\<rparr>,
         \<lparr>token_id = 3, token_text = js ''c'', probability = 1 / 2\<rparr>]
        \<lparr>total_probability = 3602879701896397 / 18014398509481984, token_count = 1,
          sample_tokens = []\<rparr> [])
   \<and> cumulative_mass double_add (allTokens
        [\<lparr>token_id = 1, token_text = js ''a'', probability = 3602879701896397 / 36028797018963968\<rparr>,
         \<lparr>token_id = 2, token_text = js ''b'', probability = 3602879701896397 / 18014398509481984\<rparr>,
         \<lparr>token_id = 3, token_text = js ''c'', probability = 1 / 2\<rparr>]
        \<lparr>total_probability = 3602879701896397 / 18014398509481984, token_count = 1,
          sample_tokens = []\<rparr> []) 0
       < 1351079888211149 / 4503599627370496
   \<and> 1351079888211149 / 4503599627370496
       \<le> cumulative_mass double_add (allTokens
        [\<lparr>token_id = 1, token_text = js ''a'', probability = 3602879701896397 / 36028797018963968\<rparr>,
         \<lparr>token_id = 2, token_text = js ''b'', probability = 3602879701896397 / 18014398509481984\<rparr>,
         \<lparr>token_id = 3, token_text = js ''c'', probability = 1 / 2\<rparr>]
        \<lparr>total_probability = 3602879701896397 / 18014398509481984, token_count = 1,
          sample_tokens = []\<rparr> []) 1
   \<and> selectRandomToken double_add (1351079888211149 / 4503599627370496)
        [\<lparr>token_id = 1, token_text = js ''a'', probability = 3602879701896397 / 36028797018963968\<rparr>,
         \<lparr>token_id = 2, token_text = js ''b'', probability = 3602879701896397 / 18014398509481984\<rparr>,
         \<lparr>token_id = 3, token_text = js ''c'', probability = 1 / 2\<rparr>]
        \<lparr>total_probability = 3602879701896397 / 18014398509481984, token_count = 1,
          sample_tokens = []\<rparr> []
       = \<lparr>sel_token_id = Some 2, sel_token_text = Some (js ''b''),
          sel_probability = 3602879701896397 / 18014398509481984,
          sel_isOther = False, wedge = None\<rparr>"
proof -
  let ?all = "allTokens
        [\<lparr>token_id = 1, token_text = js ''a'', probability = 3602879701896397 / 36028797018963968\<rparr>,
         \<lparr>token_id = 2, token_text = js ''b'', probability = 3602879701896397 / 18014398509481984\<rparr>,
         \<lparr>token_id = 3, token_text = js ''c'', probability = 1 / 2\<rparr>]
        \<lparr>total_probability = 3602879701896397 / 18014398509481984, token_count = 1,
          sample_tokens = []\<rparr> []"
  let ?r = "1351079888211149 / 4503599627370496 :: real"
  have h1: "(1::nat) < length ?all"
    by (simp add: allTokens_def)
  have c0: "cumulative_mass double_add ?all 0 = 3602879701896397 / 36028797018963968"
    by (simp add: allTokens_def cumulative_mass_def double_simps)
  have c1: "cumulative_mass double_add ?all 1 = 1351079888211149 / 4503599627370496"
    by (simp add: allTokens_def cumulative_mass_def double_simps)
  have h2: "?r \<le> cumulative_mass double_add ?all 1"
    unfolding c1 by simp
  have h0: "cumulative_mass double_add ?all 0 < ?r"
    unfolding c0 by simp
  then have h3: "\<forall>j<1. cumulative_mass double_add ?all j < ?r"
    by simp
  have "?all ! 1 = \<lparr>sel_token_id = Some 2, sel_token_text = Some (js ''b''),
                    sel_probability = 3602879701896397 / 18014398509481984,
                    sel_isOther = False, wedge = None\<rparr>"
    by (simp add: allTokens_def nth_opt_def)
  with selectRandomToken_first_meeting[OF h1 h2 h3] h1 h2 h0 show ?thesis
    by simp
qed

lemma selectRandomToken_run_through:
  assumes "\<forall>j < length (allTokens tokens oc wedges).
             cumulative_mass add (allTokens tokens oc wedges) j < random"
  shows "selectRandomToken add random tokens oc wedges = otherEntry tokens oc wedges"
proof -
  have "walk add random 0 (allTokens tokens oc wedges) = None"
    using assms unfolding cumulative_mass_def by (intro walk_none) simp
  then show ?thesis
    by (simp add: selectRandomToken_def Let_def allTokens_length allTokens_last)
qed

text \<open>
  C10. \<open>selectRandomToken\<close> always returns an entry, and its fallback is the "Other"
  entry: for every token list (the empty one too) and every "Other" category (zero mass
  too), the weighted array is non-empty, the index \<open>length - 1\<close> read by the fallback is
  in range and holds the "Other" entry (flagged \<open>isOther\<close>, carrying the category's
  total probability), and whenever the draw exceeds the mass accumulated at every step
  of the walk the function returns that entry. In particular it does so when the draw
  exceeds the mass accumulated over all the candidates and no earlier step has
  accumulated more than that. This holds however the addition rounds.
\<close>

theorem selectRandomToken_fallback_other:
  "allTokens tokens oc wedges \<noteq> []
   \<and> length (allTokens tokens oc wedges) - 1 < length (allTokens tokens oc wedges)
   \<and> allTokens tokens oc wedges ! (length (allTokens tokens oc wedges) - 1)
       = otherEntry tokens oc wedges
   \<and> sel_isOther (otherEntry tokens oc wedges)
   \<and> sel_probability (otherEntry tokens oc wedges) = total_probability oc
   \<and> ((\<forall>j < length (allTokens tokens oc wedges).
          cumulative_mass add (allTokens tokens oc wedges) j < random)
        \<longrightarrow> selectRandomToken add random tokens oc wedges = otherEntry tokens oc wedges)
   \<and> ((\<forall>j < length tokens.
          cumulative_mass add (allTokens tokens oc wedges) j
            \<le> cumulative_mass add (allTokens tokens oc wedges) (length tokens))
        \<and> cumulative_mass add (allTokens tokens oc wedges) (length tokens) < random
        \<longrightarrow> selectRandomToken add random tokens oc wedges = otherEntry tokens oc wedges)"
proof -
  have total: "selectRandomToken add random tokens oc wedges = otherEntry tokens oc wedges"
    if mono: "\<forall>j < length tokens.
          cumulative_mass add (allTokens tokens oc wedges) j
            \<le> cumulative_mass add (allTokens tokens oc wedges) (length tokens)"
      and below: "cumulative_mass add (allTokens tokens oc wedges) (length tokens) < random"
  proof (rule selectRandomToken_run_through, intro allI impI)
    fix j assume "j < length (allTokens tokens oc wedges)"
    then have "j < length tokens \<or> j = length tokens"
      by (auto simp: allTokens_length)
    then show "cumulative_mass add (allTokens tokens oc wedges) j < random"
      using mono below by auto
  qed
  have "sel_isOther (otherEntry tokens oc wedges)"
    and "sel_probability (otherEntry tokens oc wedges) = total_probability oc"
    by (simp_all add: otherEntry_def)
  moreover have "allTokens tokens oc wedges ! (length (allTokens tokens oc wedges) - 1)
                   = otherEntry tokens oc wedges"
    by (simp add: allTokens_length allTokens_last)
  moreover have "length (allTokens tokens oc wedges) - 1 < length (allTokens tokens oc wedges)"
    by (simp add: allTokens_length)
  ultimately show ?thesis
    using total selectRandomToken_run_through[of tokens oc wedges add random]
      allTokens_nonempty[of tokens oc wedges]
    by blast
qed

text \<open>
  The witness is in double arithmetic, at the tokens 0.1 and 0.2, an empty tail and
  the draw 0.5: the accumulated mass is 0.1, then 0.30000000000000004, and stays there
  when the zero mass of "Other" is added.
\<close>

theorem selectRandomToken_fallback_other_witness:
  "cumulative_mass double_add (allTokens
        [\<lparr>token_id = 1, token_text = js ''a'', probability = 3602879701896397 / 36028797018963968\<rparr>,
         \<lparr>token_id = 2, token_text = js ''b'', probability = 3602879701896397 / 18014398509481984\<rparr>]
        \<lparr>total_probability = 0, token_count = 0, sample_tokens = []\<rparr> []) 0 < 1 / 2
   \<and> cumulative_mass double_add (allTokens
        [\<lparr>token_id = 1, token_text = js ''a'', probability = 3602879701896397 / 36028797018963968\<rparr>,
         \<lparr>token_id = 2, token_text = js ''b'', probability = 3602879701896397 / 18014398509481984\<rparr>]
        \<lparr>total_probability = 0, token_count = 0, sample_tokens = []\<rparr> []) 1 < 1 / 2
   \<and> cumulative_mass double_add (allTokens
        [\<lparr>token_id = 1, token_text = js ''a'', probability = 3602879701896397 / 36028797018963968\<rparr>,
         \<lparr>token_id = 2, token_text = js ''b'', probability = 3602879701896397 / 18014398509481984\<rparr>]
        \<lparr>total_probability = 0, token_count = 0, sample_tokens = []\<rparr> []) 2 < 1 / 2
   \<and> selectRandomToken double_add (1 / 2)
        [\<lparr>token_id = 1, token_text = js ''a'', probability = 3602879701896397 / 36028797018963968\<rparr>,
         \<lparr>token_id = 2, token_text = js ''b'', probability = 3602879701896397 / 18014398509481984\<rparr>]
        \<lparr>total_probability = 0, token_count = 0, sample_tokens = []\<rparr> []
       = \<lparr>sel_token_id = None, sel_token_text = None, sel_probability = 0,
          sel_isOther = True, wedge = None\<rparr>"
proof -
  let ?tokens =
       "[\<lparr>token_id = 1, token_text = js ''a'', probability = 3602879701896397 / 36028797018963968\<rparr>,
         \<lparr>token_id = 2, token_text = js ''b'', probability = 3602879701896397 / 18014398509481984\<rparr>]"
  let ?oc = "\<lparr>total_probability = 0, token_count = 0, sample_tokens = []\<rparr>"
  let ?all = "allTokens ?tokens ?oc []"
  have c0: "cumulative_mass double_add ?all 0 = 3602879701896397 / 36028797018963968"
    by (simp add: allTokens_def cumulative_mass_def double_simps)
  have c1: "cumulative_mass double_add ?all 1 = 1351079888211149 / 4503599627370496"
    by (simp add: allTokens_def cumulative_mass_def double_simps)
  have c2: "cumulative_mass double_add ?all 2 = 1351079888211149 / 4503599627370496"
    by (simp add: allTokens_def cumulative_mass_def double_simps)
  have b0: "cumulative_mass double_add ?all 0 < 1 / 2"
    unfolding c0 by simp
  have b1: "cumulative_mass double_add ?all 1 < 1 / 2"
    unfolding c1 by simp
  have b2: "cumulative_mass double_add ?all 2 < 1 / 2"
    unfolding c2 by simp
  have "j = 0 \<or> j = 1 \<or> j = 2" if "j < length ?all" for j
    using that by (auto simp: allTokens_length)
  with b0 b1 b2 have h: "\<forall>j < length ?all. cumulative_mass double_add ?all j < 1 / 2"
    by blast
  have "selectRandomToken double_add (1 / 2) ?tokens ?oc [] = otherEntry ?tokens ?oc []"
    using selectRandomToken_fallback_other[of ?tokens ?oc "[]" double_add "1 / 2"] h by blast
  then have "selectRandomToken double_add (1 / 2) ?tokens ?oc []
               = \<lparr>sel_token_id = None, sel_token_text = None, sel_probability = 0,
                  sel_isOther = True, wedge = None\<rparr>"
    by (simp add: otherEntry_def nth_opt_def)
  with b0 b1 b2 show ?thesis
    by blast
qed

section \<open>Properties of calculateWedges\<close>

lemma foldl_pushTokenWedge:
  "foldl (pushTokenWedge add mul) (ws, a) ts
     = (ws @ wedgesFrom add mul a ts, angleAfter add mul a ts)"
  by (induction ts arbitrary: ws a) (simp_all add: pushTokenWedge_def Let_def)

lemma calculateWedges_eq:
  "calculateWedges add mul tokens oc
     = wedgesFrom add mul (- 90) tokens
       @ (if total_probability oc > 0
          then [otherWedge add mul (angleAfter add mul (- 90) tokens) oc] else [])"
  by (simp add: calculateWedges_def foldl_pushTokenWedge otherWedge_def Let_def)

lemma wedgesFrom_length: "length (wedgesFrom add mul a ts) = length ts"
  by (induction ts arbitrary: a) simp_all

lemma wedgesFrom_nth:
  "i < length ts \<Longrightarrow>
   wedgesFrom add mul a ts ! i
     = \<lparr>tokenId = Some (token_id (ts ! i)), tokenText = token_text (ts ! i),
        w_probability = probability (ts ! i),
        startAngle = angleAfter add mul a (take i ts),
        endAngle = add (angleAfter add mul a (take i ts)) (mul (probability (ts ! i)) 360),
        isOther = False\<rparr>"
proof (induction ts arbitrary: a i)
  case Nil
  then show ?case by simp
next
  case (Cons t ts)
  then show ?case
    by (cases i) simp_all
qed



lemma calculateWedges_nth_token:
  assumes "i < length tokens"
  shows "calculateWedges add mul tokens oc ! i
     = \<lparr>tokenId = Some (token_id (tokens ! i)), tokenText = token_text (tokens ! i),
        w_probability = probability (tokens ! i),
        startAngle = angleAfter add mul (- 90) (take i tokens),
        endAngle = add (angleAfter add mul (- 90) (take i tokens))
                     (mul (probability (tokens ! i)) 360),
        isOther = False\<rparr>"
  using assms by (simp add: calculateWedges_eq nth_append wedgesFrom_length wedgesFrom_nth)

lemma calculateWedges_nth_other:
  assumes "total_probability oc > 0"
  shows "calculateWedges add mul tokens oc ! length tokens
     = otherWedge add mul (angleAfter add mul (- 90) tokens) oc"
  using assms by (simp add: calculateWedges_eq nth_append wedgesFrom_length)

lemma calculateWedges_length:
  "length (calculateWedges add mul tokens oc)
     = (if total_probability oc > 0 then Suc (length tokens) else length tokens)"
  by (simp add: calculateWedges_eq wedgesFrom_length)

lemma calculateWedges_index:
  assumes "i < length (calculateWedges add mul tokens oc)" and "\<not> i < length tokens"
  shows "total_probability oc > 0" and "i = length tokens"
  using assms by (auto simp: calculateWedges_length split: if_splits)






text \<open>
  C4. \<open>calculateWedges\<close> emits an "Other" wedge if and only if
  \<open>other.total_probability > 0\<close>. When the token list is empty and the mass of "Other"
  is positive the result is exactly one wedge, the "Other" wedge from \<open>-90\<close> degrees;
  when the mass of "Other" is zero the result has one wedge per token, each carrying
  its token's id and none flagged \<open>isOther\<close>. This holds however the arithmetic rounds.
\<close>

theorem calculateWedges_other_iff:
  "((\<exists>w \<in> set (calculateWedges add mul tokens oc). isOther w) \<longleftrightarrow> total_probability oc > 0)
   \<and> (total_probability oc > 0 \<longrightarrow>
        calculateWedges add mul [] oc
          = [\<lparr>tokenId = None, tokenText = js ''Other'', w_probability = total_probability oc,
               startAngle = - 90, endAngle = add (- 90) (mul (total_probability oc) 360),
               isOther = True\<rparr>])
   \<and> (total_probability oc = 0 \<longrightarrow>
        length (calculateWedges add mul tokens oc) = length tokens
        \<and> (\<forall>i < length tokens.
              tokenId (calculateWedges add mul tokens oc ! i) = Some (token_id (tokens ! i))
              \<and> \<not> isOther (calculateWedges add mul tokens oc ! i)))"
proof -
  let ?ws = "calculateWedges add mul tokens oc"
  have emitted: "(\<exists>w \<in> set ?ws. isOther w) \<longleftrightarrow> total_probability oc > 0"
  proof
    assume "\<exists>w \<in> set ?ws. isOther w"
    then obtain i where i: "i < length ?ws" and o: "isOther (?ws ! i)"
      by (auto simp: in_set_conv_nth)
    have "\<not> i < length tokens"
      using o by (auto simp: calculateWedges_nth_token)
    with i show "total_probability oc > 0"
      by (rule calculateWedges_index)
  next
    assume pos: "total_probability oc > 0"
    then have "length tokens < length ?ws"
      by (simp add: calculateWedges_length)
    then have "?ws ! length tokens \<in> set ?ws"
      by (rule nth_mem)
    moreover have "isOther (?ws ! length tokens)"
      using pos by (simp add: calculateWedges_nth_other otherWedge_def)
    ultimately show "\<exists>w \<in> set ?ws. isOther w"
      by blast
  qed
  have single: "calculateWedges add mul [] oc
          = [\<lparr>tokenId = None, tokenText = js ''Other'', w_probability = total_probability oc,
               startAngle = - 90, endAngle = add (- 90) (mul (total_probability oc) 360),
               isOther = True\<rparr>]"
    if "total_probability oc > 0"
    using that by (simp add: calculateWedges_def)
  have len: "length ?ws = length tokens" if "total_probability oc = 0"
    using that by (simp add: calculateWedges_length)
  have each: "tokenId (?ws ! i) = Some (token_id (tokens ! i)) \<and> \<not> isOther (?ws ! i)"
    if "i < length tokens" for i
    using that by (simp add: calculateWedges_nth_token)
  show ?thesis
    using emitted single len each by blast
qed

text \<open>The witness is in double arithmetic: \<open>0.25 * 360\<close> is 90 and \<open>-90 + 90\<close> is 0.\<close>

theorem calculateWedges_other_iff_witness:
  "total_probability \<lparr>total_probability = 1/4, token_count = 9, sample_tokens = []\<rparr> > 0
   \<and> calculateWedges double_add double_mul []
         \<lparr>total_probability = 1/4, token_count = 9, sample_tokens = []\<rparr>
       = [\<lparr>tokenId = None, tokenText = js ''Other'', w_probability = 1/4,
            startAngle = - 90, endAngle = 0, isOther = True\<rparr>]
   \<and> total_probability \<lparr>total_probability = 0, token_count = 0, sample_tokens = []\<rparr> = 0
   \<and> length (calculateWedges double_add double_mul
               [\<lparr>token_id = 5, token_text = js ''x'', probability = 1\<rparr>]
               \<lparr>total_probability = 0, token_count = 0, sample_tokens = []\<rparr>) = 1
   \<and> \<not> isOther (calculateWedges double_add double_mul
                    [\<lparr>token_id = 5, token_text = js ''x'', probability = 1\<rparr>]
                    \<lparr>total_probability = 0, token_count = 0, sample_tokens = []\<rparr> ! 0)"
proof -
  let ?pos = "\<lparr>total_probability = 1/4, token_count = 9, sample_tokens = []\<rparr>"
  let ?zero = "\<lparr>total_probability = 0, token_count = 0, sample_tokens = []\<rparr>"
  let ?tokens = "[\<lparr>token_id = 5, token_text = js ''x'', probability = 1\<rparr>]"
  have p: "total_probability ?pos > 0"
    by simp
  have z: "total_probability ?zero = 0"
    by simp
  have e: "double_add (- 90) (double_mul (1/4) 360) = 0"
    by (simp add: double_simps)
  have "calculateWedges double_add double_mul [] ?pos
          = [\<lparr>tokenId = None, tokenText = js ''Other'', w_probability = total_probability ?pos,
               startAngle = - 90,
               endAngle = double_add (- 90) (double_mul (total_probability ?pos) 360),
               isOther = True\<rparr>]"
    using calculateWedges_other_iff[of double_add double_mul "[]" ?pos] p by blast
  then have one: "calculateWedges double_add double_mul [] ?pos
          = [\<lparr>tokenId = None, tokenText = js ''Other'', w_probability = 1/4,
               startAngle = - 90, endAngle = 0, isOther = True\<rparr>]"
    using e by simp
  have "length (calculateWedges double_add double_mul ?tokens ?zero) = length ?tokens
          \<and> (\<forall>i < length ?tokens.
                \<not> isOther (calculateWedges double_add double_mul ?tokens ?zero ! i))"
    using calculateWedges_other_iff[of double_add double_mul ?tokens ?zero] z by blast
  then have "length (calculateWedges double_add double_mul ?tokens ?zero) = 1
          \<and> \<not> isOther (calculateWedges double_add double_mul ?tokens ?zero ! 0)"
    by simp
  with p z one show ?thesis
    by blast
qed




section \<open>Properties of the session store\<close>

text \<open>
  C2, as the code has it. In a session state whose current text is the initial prompt
  followed by a suffix, and whose initial prompt is not empty, the derived
  \<open>generatedText\<close> (of the store, and of GeneratedText.svelte on the same prompt and
  text) is exactly that suffix, so the current text is the initial prompt followed by
  \<open>generatedText\<close>. With an empty initial prompt the guard \<open>!initialPrompt\<close> makes
  \<open>generatedText\<close> the empty string.
\<close>

theorem generatedText_suffix:
  assumes "currentText s = initialPrompt s @ suffix"
  shows "(initialPrompt s \<noteq> [] \<longrightarrow>
            generatedText s () = suffix
            \<and> currentText s = initialPrompt s @ generatedText s ()
            \<and> GeneratedText_generatedText (initialPrompt s) (currentText s) () = suffix)
         \<and> (initialPrompt s = [] \<longrightarrow> generatedText s () = [])"
  using assms by (simp add: generatedText_def GeneratedText_generatedText_def substring_def)

theorem generatedText_suffix_witness:
  "currentText \<lparr>sessionId = Some (js ''s1''), modelName = js ''gpt2'',
                 initialPrompt = js ''The cat'', currentText = js ''The cat sat'',
                 tokenHistory = [], aboveThresholdTokens = [],
                 otherCategory = \<lparr>total_probability = 0, token_count = 0, sample_tokens = []\<rparr>,
                 isLoading = False, error = None, isSpinning = False\<rparr>
     = initialPrompt \<lparr>sessionId = Some (js ''s1''), modelName = js ''gpt2'',
                 initialPrompt = js ''The cat'', currentText = js ''The cat sat'',
                 tokenHistory = [], aboveThresholdTokens = [],
                 otherCategory = \<lparr>total_probability = 0, token_count = 0, sample_tokens = []\<rparr>,
                 isLoading = False, error = None, isSpinning = False\<rparr> @ js '' sat''
   \<and> generatedText \<lparr>sessionId = Some (js ''s1''), modelName = js ''gpt2'',
                 initialPrompt = js ''The cat'', currentText = js ''The cat sat'',
                 tokenHistory = [], aboveThresholdTokens = [],
                 otherCategory = \<lparr>total_probability = 0, token_count = 0, sample_tokens = []\<rparr>,
                 isLoading = False, error = None, isSpinning = False\<rparr> () = js '' sat''"
proof -
  let ?s = "\<lparr>sessionId = Some (js ''s1''), modelName = js ''gpt2'',
                 initialPrompt = js ''The cat'', currentText = js ''The cat sat'',
                 tokenHistory = [], aboveThresholdTokens = [],
                 otherCategory = \<lparr>total_probability = 0, token_count = 0, sample_tokens = []\<rparr>,
                 isLoading = False, error = None, isSpinning = False\<rparr>"
  have h: "currentText ?s = initialPrompt ?s @ js '' sat''"
    by (simp add: js_def)
  have ne: "initialPrompt ?s \<noteq> []"
    by (simp add: js_def)
  from generatedText_suffix[OF h] ne have "generatedText ?s () = js '' sat''"
    by blast
  with h show ?thesis
    by blast
qed

text \<open>
  C2 as stated fails at an empty initial prompt. In the state that
  \<open>setTokenProbabilities\<close> with the current text \<open>abc\<close> leaves from the initial store
  (or from \<open>reset\<close>), the initial prompt is empty and the current text is the prompt
  followed by the suffix \<open>abc\<close>, yet \<open>generatedText\<close> is the empty string.
\<close>

theorem generatedText_empty_prompt_counterexample:
  "initialPrompt (setTokenProbabilities SessionStore_initial
       \<lparr>pd_current_text = js ''abc'', above_threshold_tokens = [],
        other_category = \<lparr>total_probability = 0, token_count = 0, sample_tokens = []\<rparr>\<rparr>) = []
   \<and> currentText (setTokenProbabilities SessionStore_initial
       \<lparr>pd_current_text = js ''abc'', above_threshold_tokens = [],
        other_category = \<lparr>total_probability = 0, token_count = 0, sample_tokens = []\<rparr>\<rparr>)
       = initialPrompt (setTokenProbabilities SessionStore_initial
           \<lparr>pd_current_text = js ''abc'', above_threshold_tokens = [],
            other_category = \<lparr>total_probability = 0, token_count = 0, sample_tokens = []\<rparr>\<rparr>)
         @ js ''abc''
   \<and> generatedText (setTokenProbabilities SessionStore_initial
       \<lparr>pd_current_text = js ''abc'', above_threshold_tokens = [],
        other_category = \<lparr>total_probability = 0, token_count = 0, sample_tokens = []\<rparr>\<rparr>) () = []
   \<and> generatedText (setTokenProbabilities SessionStore_initial
       \<lparr>pd_current_text = js ''abc'', above_threshold_tokens = [],
        other_category = \<lparr>total_probability = 0, token_count = 0, sample_tokens = []\<rparr>\<rparr>) ()
       \<noteq> js ''abc''"
  by (simp add: generatedText_def setTokenProbabilities_def SessionStore_initial_def js_def)

text \<open>
  C3. From every prior store state, \<open>setPrompt\<close> with a prompt \<open>p\<close> sets
  \<open>initialPrompt\<close> to \<open>p\<close>, sets \<open>currentText\<close> to exactly \<open>p\<close> and resets the token
  history to the empty sequence; no generated text is left, and a second call
  overrides the first.
\<close>

theorem setPrompt_resets:
  "initialPrompt (setPrompt s p) = p
   \<and> currentText (setPrompt s p) = p
   \<and> tokenHistory (setPrompt s p) = []
   \<and> generatedText (setPrompt s p) () = []
   \<and> setPrompt (setPrompt s p') p = setPrompt s p"
  by (simp add: setPrompt_def generatedText_def substring_def)

section \<open>Properties of the wheel page\<close>

text \<open>
  C5, as the code has it. \<open>canUndo()\<close> is true if and only if the token history is
  non-empty. The undo control is disabled whenever a request is loading or the wheel is
  spinning, whatever the history is; when nothing is loading and the wheel is not
  spinning, a non-empty history enables it. \<open>handleUndo\<close> never changes the initial
  prompt, and when the undo request is rejected (the answer to an undo on an empty
  history) it leaves the current text and the token history as they were and records
  the error.
\<close>

theorem undo_control:
  "(canUndo s () \<longleftrightarrow> length (tokenHistory s) > 0)
   \<and> (isLoading s \<or> isSpinning s \<longrightarrow> undoButton_disabled s)
   \<and> (length (tokenHistory s) > 0 \<and> \<not> isLoading s \<and> \<not> isSpinning s
        \<longrightarrow> \<not> undoButton_disabled s)
   \<and> initialPrompt (handleUndo undoResult probsResult s) = initialPrompt s
   \<and> (\<forall>e. undoResult = Inl e \<longrightarrow>
          currentText (handleUndo undoResult probsResult s) = currentText s
          \<and> tokenHistory (handleUndo undoResult probsResult s) = tokenHistory s
          \<and> error (handleUndo undoResult probsResult s)
              = Some (catch_message e (js ''Failed to undo'')))"
proof -
  have "canUndo s () \<longleftrightarrow> length (tokenHistory s) > 0"
    by (simp add: canUndo_def)
  moreover have "isLoading s \<or> isSpinning s \<longrightarrow> undoButton_disabled s"
    by (auto simp: undoButton_disabled_def)
  moreover have "length (tokenHistory s) > 0 \<and> \<not> isLoading s \<and> \<not> isSpinning s
                   \<longrightarrow> \<not> undoButton_disabled s"
    by (simp add: undoButton_disabled_def truthy_function_def)
  moreover have "initialPrompt (handleUndo undoResult probsResult s) = initialPrompt s"
    by (simp add: handleUndo_def Let_def undoToken_def setTokenProbabilities_def
        split: sum.splits)
  moreover have "currentText (handleUndo (Inl e) probsResult s) = currentText s
          \<and> tokenHistory (handleUndo (Inl e) probsResult s) = tokenHistory s
          \<and> error (handleUndo (Inl e) probsResult s)
              = Some (catch_message e (js ''Failed to undo''))" for e
    by (simp add: handleUndo_def Let_def)
  ultimately show ?thesis
    by blast
qed

text \<open>
  The witness: a store in which a request is loading (the control is disabled, and a
  rejected undo leaves the text as it was), and an idle store with one token in the
  history (the control is enabled).
\<close>

theorem undo_control_witness:
  "isLoading \<lparr>sessionId = Some (js ''s1''), modelName = js ''gpt2'',
               initialPrompt = js ''Hi'', currentText = js ''Hi'',
               tokenHistory = [], aboveThresholdTokens = [],
               otherCategory = \<lparr>total_probability = 0, token_count = 0, sample_tokens = []\<rparr>,
               isLoading = True, error = None, isSpinning = False\<rparr>
   \<and> undoButton_disabled \<lparr>sessionId = Some (js ''s1''), modelName = js ''gpt2'',
               initialPrompt = js ''Hi'', currentText = js ''Hi'',
               tokenHistory = [], aboveThresholdTokens = [],
               otherCategory = \<lparr>total_probability = 0, token_count = 0, sample_tokens = []\<rparr>,
               isLoading = True, error = None, isSpinning = False\<rparr>
   \<and> currentText (handleUndo (Inl (Error_message (js ''Cannot undo''))) (Inl Not_an_Error)
        \<lparr>sessionId = Some (js ''s1''), modelName = js ''gpt2'',
               initialPrompt = js ''Hi'', currentText = js ''Hi'',
               tokenHistory = [], aboveThresholdTokens = [],
               otherCategory = \<lparr>total_probability = 0, token_count = 0, sample_tokens = []\<rparr>,
               isLoading = True, error = None, isSpinning = False\<rparr>) = js ''Hi''
   \<and> error (handleUndo (Inl (Error_message (js ''Cannot undo''))) (Inl Not_an_Error)
        \<lparr>sessionId = Some (js ''s1''), modelName = js ''gpt2'',
               initialPrompt = js ''Hi'', currentText = js ''Hi'',
               tokenHistory = [], aboveThresholdTokens = [],
               otherCategory = \<lparr>total_probability = 0, token_count = 0, sample_tokens = []\<rparr>,
               isLoading = True, error = None, isSpinning = False\<rparr>) = Some (js ''Cannot undo'')
   \<and> length (tokenHistory \<lparr>sessionId = Some (js ''s1''), modelName = js ''gpt2'',
               initialPrompt = js ''Hi'', currentText = js ''Hi!'',
               tokenHistory = [\<lparr>h_token_id = 0, h_token_text = js ''!'', h_probability = 1/2,
                                h_category = js ''above_threshold'', h_selected_at = js ''t'',
                                h_sampled_from_other = None\<rparr>],
               aboveThresholdTokens = [],
               otherCategory = \<lparr>total_probability = 0, token_count = 0, sample_tokens = []\<rparr>,
               isLoading = False, error = None, isSpinning = False\<rparr>) > 0
   \<and> \<not> undoButton_disabled \<lparr>sessionId = Some (js ''s1''), modelName = js ''gpt2'',
               initialPrompt = js ''Hi'', currentText = js ''Hi!'',
               tokenHistory = [\<lparr>h_token_id = 0, h_token_text = js ''!'', h_probability = 1/2,
                                h_category = js ''above_threshold'', h_selected_at = js ''t'',
                                h_sampled_from_other = None\<rparr>],
               aboveThresholdTokens = [],
               otherCategory = \<lparr>total_probability = 0, token_count = 0, sample_tokens = []\<rparr>,
               isLoading = False, error = None, isSpinning = False\<rparr>"
proof -
  let ?s = "\<lparr>sessionId = Some (js ''s1''), modelName = js ''gpt2'',
               initialPrompt = js ''Hi'', currentText = js ''Hi'',
               tokenHistory = [], aboveThresholdTokens = [],
               otherCategory = \<lparr>total_probability = 0, token_count = 0, sample_tokens = []\<rparr>,
               isLoading = True, error = None, isSpinning = False\<rparr>"
  let ?i = "\<lparr>sessionId = Some (js ''s1''), modelName = js ''gpt2'',
               initialPrompt = js ''Hi'', currentText = js ''Hi!'',
               tokenHistory = [\<lparr>h_token_id = 0, h_token_text = js ''!'', h_probability = 1/2,
                                h_category = js ''above_threshold'', h_selected_at = js ''t'',
                                h_sampled_from_other = None\<rparr>],
               aboveThresholdTokens = [],
               otherCategory = \<lparr>total_probability = 0, token_count = 0, sample_tokens = []\<rparr>,
               isLoading = False, error = None, isSpinning = False\<rparr>"
  let ?u = "Inl (Error_message (js ''Cannot undo'')) :: thrown + HistoryData"
  let ?p = "Inl Not_an_Error :: thrown + ProbsData"
  note t = undo_control[of ?s ?u ?p]
  have l: "isLoading ?s"
    by simp
  with t have d: "undoButton_disabled ?s"
    by blast
  from t have "currentText (handleUndo ?u ?p ?s) = currentText ?s
      \<and> error (handleUndo ?u ?p ?s)
          = Some (catch_message (Error_message (js ''Cannot undo'')) (js ''Failed to undo''))"
    by blast
  then have r: "currentText (handleUndo ?u ?p ?s) = js ''Hi''
      \<and> error (handleUndo ?u ?p ?s) = Some (js ''Cannot undo'')"
    by simp
  have idle: "length (tokenHistory ?i) > 0 \<and> \<not> isLoading ?i \<and> \<not> isSpinning ?i"
    by simp
  with undo_control[of ?i ?u ?p] have e: "\<not> undoButton_disabled ?i"
    by blast
  from l d r idle e show ?thesis
    by blast
qed

text \<open>
  C5 as stated fails where it says that the undo control is enabled exactly when the
  history is non-empty: with one token in the history and a request loading,
  \<open>canUndo()\<close> is true and the control is disabled.
\<close>

theorem undo_control_counterexample:
  "length (tokenHistory \<lparr>sessionId = Some (js ''s1''), modelName = js ''gpt2'',
               initialPrompt = js ''Hi'', currentText = js ''Hi!'',
               tokenHistory = [\<lparr>h_token_id = 0, h_token_text = js ''!'', h_probability = 1/2,
                                h_category = js ''above_threshold'', h_selected_at = js ''t'',
                                h_sampled_from_other = None\<rparr>],
               aboveThresholdTokens = [],
               otherCategory = \<lparr>total_probability = 0, token_count = 0, sample_tokens = []\<rparr>,
               isLoading = True, error = None, isSpinning = False\<rparr>) > 0
   \<and> canUndo \<lparr>sessionId = Some (js ''s1''), modelName = js ''gpt2'',
               initialPrompt = js ''Hi'', currentText = js ''Hi!'',
               tokenHistory = [\<lparr>h_token_id = 0, h_token_text = js ''!'', h_probability = 1/2,
                                h_category = js ''above_threshold'', h_selected_at = js ''t'',
                                h_sampled_from_other = None\<rparr>],
               aboveThresholdTokens = [],
               otherCategory = \<lparr>total_probability = 0, token_count = 0, sample_tokens = []\<rparr>,
               isLoading = True, error = None, isSpinning = False\<rparr> ()
   \<and> undoButton_disabled \<lparr>sessionId = Some (js ''s1''), modelName = js ''gpt2'',
               initialPrompt = js ''Hi'', currentText = js ''Hi!'',
               tokenHistory = [\<lparr>h_token_id = 0, h_token_text = js ''!'', h_probability = 1/2,
                                h_category = js ''above_threshold'', h_selected_at = js ''t'',
                                h_sampled_from_other = None\<rparr>],
               aboveThresholdTokens = [],
               otherCategory = \<lparr>total_probability = 0, token_count = 0, sample_tokens = []\<rparr>,
               isLoading = True, error = None, isSpinning = False\<rparr>"
  by (simp add: canUndo_def undoButton_disabled_def)

text \<open>
  Left out of C5 as the code has it: on an idle page the control is enabled on an
  empty history as well, since the operand of \<open>!\<close> in \<open>!sessionStore.canUndo\<close> is the
  function the field holds. The store's initial state is such a state.
\<close>

lemma undoButton_enabled_on_empty_history:
  "tokenHistory SessionStore_initial = []
   \<and> \<not> canUndo SessionStore_initial ()
   \<and> \<not> undoButton_disabled SessionStore_initial"
  by (simp add: SessionStore_initial_def canUndo_def undoButton_disabled_def truthy_function_def)

lemma handleSpin_selection_other:
  assumes "\<forall>j < length (allTokens (aboveThresholdTokens s) (otherCategory s)
                          (calculateWedges add mul (aboveThresholdTokens s) (otherCategory s))).
             cumulative_mass add (allTokens (aboveThresholdTokens s) (otherCategory s)
               (calculateWedges add mul (aboveThresholdTokens s) (otherCategory s))) j < random"
  shows "handleSpin_selection add mul random s
           = \<lparr>ts_token_id = None, ts_token_text = None, ts_category = Some (js ''other'')\<rparr>"
proof -
  have "selectRandomToken add random (aboveThresholdTokens s) (otherCategory s)
          (calculateWedges add mul (aboveThresholdTokens s) (otherCategory s))
        = otherEntry (aboveThresholdTokens s) (otherCategory s)
            (calculateWedges add mul (aboveThresholdTokens s) (otherCategory s))"
    using assms by (rule selectRandomToken_run_through)
  then show ?thesis
    by (simp add: handleSpin_selection_def Let_def otherEntry_def)
qed

lemma cumulative_mass_wedges:
  "cumulative_mass add (allTokens tokens oc wedges) j = cumulative_mass add (allTokens tokens oc []) j"
proof -
  have "map sel_probability (allTokens tokens oc wedges) = map probability tokens @ [total_probability oc]"
    for wedges
  proof -
    have "map sel_probability
            (map (\<lambda>(i, t). \<lparr>sel_token_id = Some (token_id t), sel_token_text = Some (token_text t),
                            sel_probability = probability t, sel_isOther = False,
                            wedge = nth_opt wedges i\<rparr>) (enumerate n tokens))
          = map probability tokens" for n
      by (induction tokens arbitrary: n) simp_all
    then show ?thesis
      by (simp add: allTokens_def)
  qed
  then show ?thesis
    by (simp add: cumulative_mass_def take_map[symmetric])
qed

text \<open>
  C6 does not hold of the code. The store holds a snapshot whose tail is empty
  (\<open>other.total_probability = 0\<close>) and whose token probabilities are 0.6 and 0.3999999
  (each written as the fraction the double denotes); in the double arithmetic of the
  code the walk of \<open>selectRandomToken\<close> accumulates 0.9999998999999999, so at the draw
  0.99999995 it runs through, the fallback returns the "Other" entry, and \<open>handleSpin\<close>
  issues the selection \<open>{ category: 'other' }\<close>. The same happens at every draw on the
  store's initial snapshot (no tokens, empty tail), here at the draw 0.5.
\<close>

theorem handleSpin_other_on_empty_tail:
  "total_probability (otherCategory
       \<lparr>sessionId = Some (js ''s1''), modelName = js ''gpt2'',
        initialPrompt = js ''Hi'', currentText = js ''Hi'', tokenHistory = [],
        aboveThresholdTokens =
          [\<lparr>token_id = 1, token_text = js ''a'', probability = 5404319552844595 / 9007199254740992\<rparr>,
           \<lparr>token_id = 2, token_text = js ''b'', probability = 7205757602352943 / 18014398509481984\<rparr>],
        otherCategory = \<lparr>total_probability = 0, token_count = 0, sample_tokens = []\<rparr>,
        isLoading = False, error = None, isSpinning = False\<rparr>) = 0
   \<and> handleSpin_selection double_add double_mul (9007198804381029 / 9007199254740992)
       \<lparr>sessionId = Some (js ''s1''), modelName = js ''gpt2'',
        initialPrompt = js ''Hi'', currentText = js ''Hi'', tokenHistory = [],
        aboveThresholdTokens =
          [\<lparr>token_id = 1, token_text = js ''a'', probability = 5404319552844595 / 9007199254740992\<rparr>,
           \<lparr>token_id = 2, token_text = js ''b'', probability = 7205757602352943 / 18014398509481984\<rparr>],
        otherCategory = \<lparr>total_probability = 0, token_count = 0, sample_tokens = []\<rparr>,
        isLoading = False, error = None, isSpinning = False\<rparr>
     = \<lparr>ts_token_id = None, ts_token_text = None, ts_category = Some (js ''other'')\<rparr>
   \<and> total_probability (otherCategory SessionStore_initial) = 0
   \<and> handleSpin_selection double_add double_mul (1/2) SessionStore_initial
     = \<lparr>ts_token_id = None, ts_token_text = None, ts_category = Some (js ''other'')\<rparr>"
proof -
  let ?tokens =
    "[\<lparr>token_id = 1, token_text = js ''a'', probability = 5404319552844595 / 9007199254740992\<rparr>,
      \<lparr>token_id = 2, token_text = js ''b'', probability = 7205757602352943 / 18014398509481984\<rparr>]"
  let ?oc = "\<lparr>total_probability = 0, token_count = 0, sample_tokens = []\<rparr>"
  let ?s = "\<lparr>sessionId = Some (js ''s1''), modelName = js ''gpt2'',
        initialPrompt = js ''Hi'', currentText = js ''Hi'', tokenHistory = [],
        aboveThresholdTokens = ?tokens, otherCategory = ?oc,
        isLoading = False, error = None, isSpinning = False\<rparr>"
  let ?r = "9007198804381029 / 9007199254740992 :: real"
  have c0: "cumulative_mass double_add (allTokens ?tokens ?oc []) 0
              = 5404319552844595 / 9007199254740992"
    by (simp add: allTokens_def cumulative_mass_def double_simps)
  have c1: "cumulative_mass double_add (allTokens ?tokens ?oc []) 1
              = 4503599177010533 / 4503599627370496"
    by (simp add: allTokens_def cumulative_mass_def double_simps)
  have c2: "cumulative_mass double_add (allTokens ?tokens ?oc []) 2
              = 4503599177010533 / 4503599627370496"
    by (simp add: allTokens_def cumulative_mass_def double_simps)
  have b: "cumulative_mass double_add (allTokens ?tokens ?oc []) 0 < ?r"
      "cumulative_mass double_add (allTokens ?tokens ?oc []) 1 < ?r"
      "cumulative_mass double_add (allTokens ?tokens ?oc []) 2 < ?r"
    unfolding c0 c1 c2 by simp_all
  have "cumulative_mass double_add (allTokens ?tokens ?oc ws) j < ?r"
    if "j < length (allTokens ?tokens ?oc ws)" for j ws
  proof -
    from that have "j = 0 \<or> j = 1 \<or> j = 2"
      by (auto simp: allTokens_length)
    with b show ?thesis
      by (subst cumulative_mass_wedges) auto
  qed
  then have first: "handleSpin_selection double_add double_mul ?r ?s
      = \<lparr>ts_token_id = None, ts_token_text = None, ts_category = Some (js ''other'')\<rparr>"
    by (intro handleSpin_selection_other) simp
  have i0: "cumulative_mass double_add (allTokens [] ?oc []) 0 = 0"
    by (simp add: allTokens_def cumulative_mass_def double_simps)
  have "cumulative_mass double_add (allTokens [] ?oc ws) j < 1/2"
    if "j < length (allTokens [] ?oc ws)" for j ws
  proof -
    from that have "j = 0"
      by (auto simp: allTokens_length)
    with i0 show ?thesis
      by (subst cumulative_mass_wedges) simp
  qed
  then have second: "handleSpin_selection double_add double_mul (1/2) SessionStore_initial
      = \<lparr>ts_token_id = None, ts_token_text = None, ts_category = Some (js ''other'')\<rparr>"
    by (intro handleSpin_selection_other) (simp add: SessionStore_initial_def)
  have "total_probability (otherCategory ?s) = 0"
    and "total_probability (otherCategory SessionStore_initial) = 0"
    by (simp_all add: SessionStore_initial_def)
  with first second show ?thesis
    by blast
qed

section \<open>Properties of handleSubmit\<close>

lemma trim_empty_iff: "trim str = [] \<longleftrightarrow> (\<forall>c \<in> set str. isWhiteSpace c)"
proof
  assume "trim str = []"
  then have all: "\<forall>c \<in> set (dropWhile isWhiteSpace str). isWhiteSpace c"
    by (simp add: trim_def dropWhile_eq_Nil_conv)
  have "dropWhile isWhiteSpace str = []"
  proof (rule ccontr)
    assume ne: "dropWhile isWhiteSpace str \<noteq> []"
    then have "\<not> isWhiteSpace (hd (dropWhile isWhiteSpace str))"
      by (rule hd_dropWhile)
    moreover have "hd (dropWhile isWhiteSpace str) \<in> set (dropWhile isWhiteSpace str)"
      using ne by simp
    ultimately show False
      using all by blast
  qed
  then show "\<forall>c \<in> set str. isWhiteSpace c"
    by (simp add: dropWhile_eq_Nil_conv)
next
  assume "\<forall>c \<in> set str. isWhiteSpace c"
  then have d: "dropWhile isWhiteSpace str = []"
    by (simp only: dropWhile_eq_Nil_conv)
  show "trim str = []"
    unfolding trim_def d by simp
qed

text \<open>
  C7. For every prompt whose trimmed length is zero (the empty prompt among them),
  \<open>handleSubmit\<close> does not invoke \<open>onSubmit\<close>: whatever the callback does, the
  state it works on is left as it was. The trimmed length is zero exactly when every
  code unit of the prompt is white space.
\<close>

theorem handleSubmit_blank_prompt:
  "(length (trim prompt) = 0 \<longrightarrow> handleSubmit prompt onSubmit s = s)
   \<and> (length (trim prompt) = 0 \<longleftrightarrow> (\<forall>c \<in> set prompt. isWhiteSpace c))
   \<and> (prompt = [] \<longrightarrow> handleSubmit prompt onSubmit s = s)"
  by (simp add: handleSubmit_def trim_empty_iff)

theorem handleSubmit_blank_prompt_witness:
  "length (trim [0x20, 0x09, 0x0A, 0xA0]) = 0
   \<and> handleSubmit [0x20, 0x09, 0x0A, 0xA0] (\<lambda>calls::nat. calls + 1) 0 = 0
   \<and> handleSubmit (js ''hi'') (\<lambda>calls::nat. calls + 1) 0 = 1"
proof -
  have h: "length (trim [0x20, 0x09, 0x0A, 0xA0]) = 0"
    by (simp add: trim_def isWhiteSpace_def)
  have "handleSubmit [0x20, 0x09, 0x0A, 0xA0] (\<lambda>calls::nat. calls + 1) 0 = 0"
    using handleSubmit_blank_prompt[of "[0x20, 0x09, 0x0A, 0xA0]" "\<lambda>calls::nat. calls + 1" 0] h
    by blast
  moreover have "handleSubmit (js ''hi'') (\<lambda>calls::nat. calls + 1) 0 = 1"
    by (simp add: handleSubmit_def trim_def isWhiteSpace_def js_def)
  ultimately show ?thesis
    using h by blast
qed

section \<open>Properties of getNextTokenProbs\<close>

text \<open>
  C8. Called without \<open>threshold\<close> and \<open>temperature\<close>, \<open>getNextTokenProbs\<close> sends
  the parameters \<open>threshold\<close> and \<open>temperature\<close> with the values 0.01 and 1.0, the
  same request as when both values are passed explicitly.
\<close>

theorem getNextTokenProbs_defaults:
  "getNextTokenProbs_params toString None None
     = [(js ''threshold'', toString (1 / 100)), (js ''temperature'', toString 1)]
   \<and> getNextTokenProbs_params toString None None
       = getNextTokenProbs_params toString (Some (1 / 100)) (Some 1)"
  by (simp add: getNextTokenProbs_params_def)

end
